theory Spec2Isabelle
  imports Main
begin

section \<open>Data model of client/backend.go\<close>

text \<open>
  \<^verbatim>\<open>type BackendType string\<close> with the two constants of the source.
\<close>

type_synonym BackendType = string

definition LOCAL :: BackendType where
  "LOCAL = ''local''"

definition S3 :: BackendType where
  "S3 = ''s3''"

text \<open>
  Values that \<^verbatim>\<open>yaml\<close> decoding leaves in a \<^verbatim>\<open>map[string]interface{}\<close>:
  scalars, null, sequences and nested mappings. A float or timestamp scalar is carried
  by its text. A Go map has one entry per key; the list is read with \<open>map_of\<close>.
\<close>

datatype yaml_value =
    YString string
  | YInt int
  | YBool bool
  | YFloat string
  | YNull
  | YSeq "yaml_value list"
  | YMap "(string \<times> yaml_value) list"

text \<open>
  What an evaluated attribute of an \<^verbatim>\<open>hcl.Body\<close> holds, and the body itself:
  its attributes by name and the type names of its nested blocks.
\<close>

datatype cty_value =
    CtyString string
  | CtyNumber int
  | CtyBool bool
  | CtyNull
  | CtyList "cty_value list"
  | CtyObject "(string \<times> cty_value) list"

record hcl_body =
  attributes :: "(string \<times> cty_value) list"
  blocks :: "string list"

text \<open>
  The field \<^verbatim>\<open>ConfigAttrsHCL interface{}\<close>: the nil interface, a value whose dynamic
  type implements \<^verbatim>\<open>hcl.Body\<close>, or a value of any other dynamic type.
\<close>

datatype iface = INil | IBody hcl_body | IOther

text \<open>
  \<^verbatim>\<open>BackendConfigBlock\<close>. The first two fields are \<^verbatim>\<open>BackendName\<close> and
  \<^verbatim>\<open>BackendType\<close> in the source; they carry a prefix here because
  \<^verbatim>\<open>TerraformBackend\<close> has fields of the same names. \<^verbatim>\<open>format\<close> is a
  \<^verbatim>\<open>cqproto.ConfigFormat\<close>, an integer type declared outside this file.
\<close>

record BackendConfigBlock =
  cfg_BackendName :: string
  cfg_BackendType :: string
  ConfigAttrsHCL :: iface
  ConfigAttrsYAML :: "(string \<times> yaml_value) list"
  format :: int

record LocalBackendConfig =
  Path :: string

record S3BackendConfig =
  Bucket :: string
  Key :: string
  Region :: string
  RoleArn :: string

text \<open>
  Modelled from the spec: the types \<^verbatim>\<open>TerraformData\<close> and its \<^verbatim>\<open>State\<close> are
  declared in another file of the package. The spec gives a state document an integer
  \<^verbatim>\<open>version\<close> and an otherwise opaque payload; the payload type is a parameter.
\<close>

record 'p State =
  Version :: int
  Payload :: 'p

record 'p TerraformData =
  State :: "'p State"

record 'p TerraformBackend =
  BackendType :: BackendType
  BackendName :: string
  Data :: "'p TerraformData"

subsection \<open>Errors and outcomes\<close>

text \<open>
  One constructor per error the source builds, and \<open>External\<close> for an error of a
  library or of the outside world that the source returns unchanged (its message).
  \<open>CannotParseConfig k None\<close> is \<^verbatim>\<open>errors.New("cannot parse k backend config")\<close>
  of the HCL branch; \<open>CannotParseConfig k (Some m)\<close> is the YAML branch's
  \<^verbatim>\<open>fmt.Errorf("cannot parse k backend config: %w", err)\<close> around an error of message \<open>m\<close>.
\<close>

datatype error =
    InvalidTfState
  | UnsupportedStateVersion int
  | CannotParseConfig BackendType "string option"
  | FailedToReadTfstate string
  | UnsupportedBackend
  | External string

text \<open>A call returns a value, returns an error, or panics.\<close>

datatype 'a outcome = Ok 'a | Err error | Panic

subsection \<open>Decimal rendering, for \<^verbatim>\<open>%d\<close>\<close>

definition digit_char :: "nat \<Rightarrow> char" where
  "digit_char d = char_of (48 + d)"

fun show_nat :: "nat \<Rightarrow> string" where
  "show_nat n = (if n < 10 then [digit_char n] else show_nat (n div 10) @ [digit_char (n mod 10)])"

definition show_int :: "int \<Rightarrow> string" where
  "show_int i = (if i < 0 then CHR ''-'' # show_nat (nat (- i)) else show_nat (nat i))"

text \<open>The \<^verbatim>\<open>Error()\<close> string of each error.\<close>

fun error_message :: "error \<Rightarrow> string" where
  "error_message InvalidTfState = ''invalid tf state file''"
| "error_message (UnsupportedStateVersion v) = ''unsupported state version '' @ show_int v"
| "error_message (CannotParseConfig k None) = ''cannot parse '' @ k @ '' backend config''"
| "error_message (CannotParseConfig k (Some m)) = ''cannot parse '' @ k @ '' backend config: '' @ m"
| "error_message (FailedToReadTfstate p) = ''failed to read tfstate from '' @ p"
| "error_message UnsupportedBackend = ''unsupported backend''"
| "error_message (External m) = m"

section \<open>The environment: libraries and the outside world\<close>

text \<open>
  Everything the source calls outside this file is a field of the environment, so each
  theorem about the source holds for every behaviour of the libraries, of the
  filesystem and of the network. \<open>'r\<close> is the content behind an \<^verbatim>\<open>io.Reader\<close>,
  \<open>'y\<close> the bytes \<^verbatim>\<open>yaml.Marshal\<close> returns, \<open>'p\<close> the payload of a decoded state.

  \<^item> \<open>ConfigHCL\<close>, \<open>StateVersion\<close>: the constants \<^verbatim>\<open>cqproto.ConfigHCL\<close> and
    \<^verbatim>\<open>StateVersion\<close>, declared outside this file.
  \<^item> \<open>json_decode\<close>: \<^verbatim>\<open>json.NewDecoder(reader).Decode(&s.State)\<close>; \<open>None\<close> is an error.
  \<^item> \<open>gohcl_decode_s3\<close>, \<open>gohcl_decode_local\<close>: \<^verbatim>\<open>gohcl.DecodeBody(cfg, nil, &b)\<close>
    into the zero value of the struct; \<open>None\<close> is a non-nil diagnostics value.
  \<^item> \<open>yaml_marshal\<close>: \<^verbatim>\<open>yaml.Marshal\<close>, whose error the source drops.
  \<^item> \<open>yaml_unmarshal_s3\<close>, \<open>yaml_unmarshal_local\<close>: \<^verbatim>\<open>yaml.Unmarshal(cfgBytes, &b)\<close>
    into the zero value of the struct; \<open>Inl m\<close> is an error of message \<open>m\<close>.
  \<^item> \<open>new_session\<close>: \<^verbatim>\<open>session.NewSession()\<close>; \<open>Some m\<close> is an error.
  \<^item> \<open>get_bucket_region\<close>: \<^verbatim>\<open>s3manager.GetBucketRegion\<close> of a bucket with a region hint.
  \<^item> \<open>new_session_with_options\<close>: \<^verbatim>\<open>session.NewSessionWithOptions\<close> for a region.
  \<^item> \<open>arn_parse\<close>: \<^verbatim>\<open>arn.Parse\<close>, giving the \<^verbatim>\<open>String()\<close> of the parsed value.
  \<^item> \<open>get_object\<close>: \<^verbatim>\<open>svc.GetObject\<close> with the client's credentials and region, for a
    bucket and a key; \<open>Inr r\<close> is the body of the result.
  \<^item> \<open>os_open\<close>: \<^verbatim>\<open>os.Open\<close>; \<open>None\<close> is an error.
\<close>

text \<open>
  The credentials of the S3 client: those of the session, or
  \<^verbatim>\<open>stscreds.NewCredentials(sess, arn)\<close> set in \<^verbatim>\<open>awsCfg.Credentials\<close>.
\<close>

datatype credentials = SessionCredentials | AssumeRole string

record ('r, 'y, 'p) env =
  ConfigHCL :: int
  StateVersion :: int
  json_decode :: "'r \<Rightarrow> 'p State option"
  gohcl_decode_s3 :: "hcl_body \<Rightarrow> S3BackendConfig option"
  gohcl_decode_local :: "hcl_body \<Rightarrow> LocalBackendConfig option"
  yaml_marshal :: "(string \<times> yaml_value) list \<Rightarrow> 'y"
  yaml_unmarshal_s3 :: "'y \<Rightarrow> string + S3BackendConfig"
  yaml_unmarshal_local :: "'y \<Rightarrow> string + LocalBackendConfig"
  new_session :: "string option"
  get_bucket_region :: "string \<Rightarrow> string \<Rightarrow> string + string"
  new_session_with_options :: "string \<Rightarrow> string option"
  arn_parse :: "string \<Rightarrow> string + string"
  get_object :: "credentials \<Rightarrow> string \<Rightarrow> string \<Rightarrow> string \<Rightarrow> string + 'r"
  os_open :: "string \<Rightarrow> 'r option"

text \<open>
  The calls a run makes outside this file, in order. \<open>GetBucketRegion\<close> carries the
  bucket and the region hint, \<open>GetObject\<close> the credentials, region, bucket and key.
\<close>

datatype event =
    HclDecodeBody
  | YamlMarshal
  | YamlUnmarshal
  | NewSession
  | GetBucketRegion string string
  | NewSessionWithOptions string
  | ArnParse string
  | StsNewCredentials string
  | GetObject credentials string string string
  | OsOpen string
  | JsonDecode
  | FileClose string

text \<open>
  The calls into the network or the filesystem. Creating a session reads the shared
  configuration files, so it counts; the decoders and \<^verbatim>\<open>arn.Parse\<close> compute only, and
  \<^verbatim>\<open>stscreds.NewCredentials\<close> builds a provider that is not called before the fetch.
\<close>

fun io_access :: "event \<Rightarrow> bool" where
  "io_access HclDecodeBody = False"
| "io_access YamlMarshal = False"
| "io_access YamlUnmarshal = False"
| "io_access NewSession = True"
| "io_access (GetBucketRegion b h) = True"
| "io_access (NewSessionWithOptions r) = True"
| "io_access (ArnParse a) = False"
| "io_access (StsNewCredentials a) = False"
| "io_access (GetObject c r b k) = True"
| "io_access (OsOpen p) = True"
| "io_access JsonDecode = False"
| "io_access (FileClose p) = True"

fun is_lookup :: "event \<Rightarrow> bool" where
  "is_lookup (GetBucketRegion b h) = True"
| "is_lookup e = False"

fun is_fetch :: "event \<Rightarrow> bool" where
  "is_fetch (GetObject c r b k) = True"
| "is_fetch e = False"

type_synonym 'a run = "'a outcome \<times> event list"

text \<open>Sequencing: the rest runs only after a value; the events are appended.\<close>

definition bind :: "'a run \<Rightarrow> ('a \<Rightarrow> 'b run) \<Rightarrow> 'b run" where
  "bind m f =
     (case m of
        (Ok a, t) \<Rightarrow> (case f a of (r, t') \<Rightarrow> (r, t @ t'))
      | (Err e, t) \<Rightarrow> (Err e, t)
      | (Panic, t) \<Rightarrow> (Panic, t))"

section \<open>The functions of client/backend.go\<close>

text \<open>\<^verbatim>\<open>parseAndValidate\<close>: decode, then the version gate.\<close>

definition parseAndValidate :: "('r, 'y, 'p) env \<Rightarrow> 'r \<Rightarrow> 'p TerraformData outcome" where
  "parseAndValidate env reader =
     (case json_decode env reader of
        None \<Rightarrow> Err InvalidTfState
      | Some s \<Rightarrow>
          if Version s \<noteq> StateVersion env then Err (UnsupportedStateVersion (Version s))
          else Ok \<lparr>State = s\<rparr>)"

text \<open>
  The first switch of \<^verbatim>\<open>NewS3TerraformBackend\<close>, on \<^verbatim>\<open>config.format\<close>. The type
  assertion \<^verbatim>\<open>config.ConfigAttrsHCL.(hcl.Body)\<close> has one result only, so it panics on any
  value that is not a body, the nil interface included. Every format other than
  \<^verbatim>\<open>cqproto.ConfigHCL\<close> takes the \<^verbatim>\<open>default\<close> branch.
\<close>

definition decodeS3Config :: "('r, 'y, 'p) env \<Rightarrow> BackendConfigBlock \<Rightarrow> S3BackendConfig run" where
  "decodeS3Config env config =
     (if format config = ConfigHCL env then
        (case ConfigAttrsHCL config of
           IBody cfg \<Rightarrow>
             (case gohcl_decode_s3 env cfg of
                None \<Rightarrow> (Err (CannotParseConfig S3 None), [HclDecodeBody])
              | Some b \<Rightarrow> (Ok b, [HclDecodeBody]))
         | INil \<Rightarrow> (Panic, [])
         | IOther \<Rightarrow> (Panic, []))
      else
        (case yaml_unmarshal_s3 env (yaml_marshal env (ConfigAttrsYAML config)) of
           Inl m \<Rightarrow> (Err (CannotParseConfig S3 (Some m)), [YamlMarshal, YamlUnmarshal])
         | Inr b \<Rightarrow> (Ok b, [YamlMarshal, YamlUnmarshal])))"

text \<open>
  \<^verbatim>\<open>if b.Region == ""\<close>: the arguments of \<^verbatim>\<open>GetBucketRegion\<close> are evaluated first, and
  \<^verbatim>\<open>session.Must\<close> panics on an error of \<^verbatim>\<open>session.NewSession\<close>.
\<close>

definition resolveRegion :: "('r, 'y, 'p) env \<Rightarrow> S3BackendConfig \<Rightarrow> S3BackendConfig run" where
  "resolveRegion env b =
     (if Region b = [] then
        (case new_session env of
           Some m \<Rightarrow> (Panic, [NewSession])
         | None \<Rightarrow>
             (case get_bucket_region env (Bucket b) ''us-east-1'' of
                Inl m \<Rightarrow> (Err (External m), [NewSession, GetBucketRegion (Bucket b) ''us-east-1''])
              | Inr region \<Rightarrow>
                  (Ok (b\<lparr>Region := region\<rparr>), [NewSession, GetBucketRegion (Bucket b) ''us-east-1''])))
      else (Ok b, []))"

text \<open>\<^verbatim>\<open>session.NewSessionWithOptions\<close> for \<^verbatim>\<open>b.Region\<close>.\<close>

definition newRegionSession :: "('r, 'y, 'p) env \<Rightarrow> S3BackendConfig \<Rightarrow> unit run" where
  "newRegionSession env b =
     (case new_session_with_options env (Region b) of
        Some m \<Rightarrow> (Err (External m), [NewSessionWithOptions (Region b)])
      | None \<Rightarrow> (Ok (), [NewSessionWithOptions (Region b)]))"

text \<open>\<^verbatim>\<open>if b.RoleArn != ""\<close>: the credentials the client is built with.\<close>

definition resolveCredentials :: "('r, 'y, 'p) env \<Rightarrow> S3BackendConfig \<Rightarrow> credentials run" where
  "resolveCredentials env b =
     (if RoleArn b \<noteq> [] then
        (case arn_parse env (RoleArn b) of
           Inl m \<Rightarrow> (Err (External m), [ArnParse (RoleArn b)])
         | Inr a \<Rightarrow> (Ok (AssumeRole a), [ArnParse (RoleArn b), StsNewCredentials a]))
      else (Ok SessionCredentials, []))"

text \<open>\<^verbatim>\<open>svc.GetObject\<close>, \<^verbatim>\<open>parseAndValidate(result.Body)\<close> and the result.\<close>

definition fetchState ::
  "('r, 'y, 'p) env \<Rightarrow> BackendConfigBlock \<Rightarrow> S3BackendConfig \<Rightarrow> credentials \<Rightarrow> 'p TerraformBackend run" where
  "fetchState env config b creds =
     (case get_object env creds (Region b) (Bucket b) (Key b) of
        Inl m \<Rightarrow> (Err (External m), [GetObject creds (Region b) (Bucket b) (Key b)])
      | Inr body \<Rightarrow>
          (map_outcome
             (\<lambda>d. \<lparr>BackendType = S3, BackendName = cfg_BackendName config, Data = d\<rparr>)
             (parseAndValidate env body),
           [GetObject creds (Region b) (Bucket b) (Key b), JsonDecode]))"

definition NewS3TerraformBackend ::
  "('r, 'y, 'p) env \<Rightarrow> BackendConfigBlock \<Rightarrow> 'p TerraformBackend run" where
  "NewS3TerraformBackend env config =
     bind (decodeS3Config env config) (\<lambda>b0.
     bind (resolveRegion env b0) (\<lambda>b.
     bind (newRegionSession env b) (\<lambda>u.
     bind (resolveCredentials env b) (\<lambda>creds.
     fetchState env config b creds))))"

text \<open>The switch of \<^verbatim>\<open>NewLocalTerraformBackend\<close> on \<^verbatim>\<open>config.format\<close>.\<close>

definition decodeLocalConfig ::
  "('r, 'y, 'p) env \<Rightarrow> BackendConfigBlock \<Rightarrow> LocalBackendConfig run" where
  "decodeLocalConfig env config =
     (if format config = ConfigHCL env then
        (case ConfigAttrsHCL config of
           IBody cfg \<Rightarrow>
             (case gohcl_decode_local env cfg of
                None \<Rightarrow> (Err (CannotParseConfig LOCAL None), [HclDecodeBody])
              | Some b \<Rightarrow> (Ok b, [HclDecodeBody]))
         | INil \<Rightarrow> (Panic, [])
         | IOther \<Rightarrow> (Panic, []))
      else
        (case yaml_unmarshal_local env (yaml_marshal env (ConfigAttrsYAML config)) of
           Inl m \<Rightarrow> (Err (CannotParseConfig LOCAL (Some m)), [YamlMarshal, YamlUnmarshal])
         | Inr b \<Rightarrow> (Ok b, [YamlMarshal, YamlUnmarshal])))"

text \<open>
  \<^verbatim>\<open>os.Open(b.Path)\<close>, the deferred \<^verbatim>\<open>f.Close()\<close>, \<^verbatim>\<open>parseAndValidate(f)\<close> and the
  result.
\<close>

definition readLocalState ::
  "('r, 'y, 'p) env \<Rightarrow> BackendConfigBlock \<Rightarrow> LocalBackendConfig \<Rightarrow> 'p TerraformBackend run" where
  "readLocalState env config b =
     (case os_open env (Path b) of
        None \<Rightarrow> (Err (FailedToReadTfstate (Path b)), [OsOpen (Path b)])
      | Some f \<Rightarrow>
          (map_outcome
             (\<lambda>d. \<lparr>BackendType = LOCAL, BackendName = cfg_BackendName config, Data = d\<rparr>)
             (parseAndValidate env f),
           [OsOpen (Path b), JsonDecode, FileClose (Path b)]))"

definition NewLocalTerraformBackend ::
  "('r, 'y, 'p) env \<Rightarrow> BackendConfigBlock \<Rightarrow> 'p TerraformBackend run" where
  "NewLocalTerraformBackend env config =
     bind (decodeLocalConfig env config) (\<lambda>b. readLocalState env config b)"

text \<open>\<^verbatim>\<open>NewBackend\<close>: the switch on \<^verbatim>\<open>cfg.BackendType\<close>.\<close>

definition NewBackend :: "('r, 'y, 'p) env \<Rightarrow> BackendConfigBlock \<Rightarrow> 'p TerraformBackend run" where
  "NewBackend env cfg =
     (if cfg_BackendType cfg = ''local'' then NewLocalTerraformBackend env cfg
      else if cfg_BackendType cfg = ''s3'' then NewS3TerraformBackend env cfg
      else (Err UnsupportedBackend, []))"

section \<open>Models of the libraries\<close>

text \<open>
  The three decoders are libraries outside this repository. The models below follow
  their documented behaviour on the structs of this package (string fields in the two
  configs, an integer version in the state) and serve where a statement needs a
  concrete decoder.
\<close>

subsection \<open>\<^verbatim>\<open>encoding/json\<close> into \<^verbatim>\<open>State\<close>\<close>

text \<open>
  A JSON value; \<open>JInt\<close> is a number written as an integer literal, \<open>JNumber\<close> any other
  number, by its text. The decoder reads one value and leaves what follows it, so the
  content behind a reader counts by whether it starts with a JSON value.
\<close>

datatype json =
    JNull
  | JBool bool
  | JInt int
  | JNumber string
  | JString string
  | JArray "json list"
  | JObject "(string \<times> json) list"

datatype json_text = NotJSON | JSON json

text \<open>
  Decoding into a Go \<^verbatim>\<open>int\<close> (64 bits): \<^verbatim>\<open>null\<close> leaves the field as it is, an integer
  literal in range sets it, every other value is a type error.
\<close>

fun decode_int :: "json \<Rightarrow> int \<Rightarrow> int option" where
  "decode_int JNull cur = Some cur"
| "decode_int (JInt n) cur =
     (if - (2 ^ 63) \<le> n \<and> n < 2 ^ 63 then Some n else None)"
| "decode_int j cur = None"

text \<open>
  The members of an object, in order. \<open>fm\<close> tells the names the decoder takes for the
  field tagged \<^verbatim>\<open>version\<close> (the name itself, and its variants in other letter case);
  \<open>ro\<close> tells whether the other fields of \<^verbatim>\<open>State\<close>, declared outside this file, accept
  a member. A member without a field is skipped by the decoder, which \<open>ro\<close> covers. The
  decoder reports a type error at the end; the value is dropped then.
\<close>

fun decode_members ::
  "(string \<Rightarrow> bool) \<Rightarrow> (string \<Rightarrow> json \<Rightarrow> bool) \<Rightarrow> (string \<times> json) list \<Rightarrow> int \<Rightarrow> int option" where
  "decode_members fm ro [] cur = Some cur"
| "decode_members fm ro ((k, j) # ms) cur =
     (if fm k then
        (case decode_int j cur of
           None \<Rightarrow> None
         | Some v \<Rightarrow> decode_members fm ro ms v)
      else if ro k j then decode_members fm ro ms cur
      else None)"

text \<open>
  Decoding into the zero value of the struct: \<^verbatim>\<open>null\<close> leaves it as it is, an object
  sets the fields its members name and leaves the others, any other value is a
  type error.
\<close>

fun json_decode_State ::
  "(string \<Rightarrow> bool) \<Rightarrow> (string \<Rightarrow> json \<Rightarrow> bool) \<Rightarrow> json_text \<Rightarrow> (string \<times> json) list State option" where
  "json_decode_State fm ro NotJSON = None"
| "json_decode_State fm ro (JSON JNull) = Some \<lparr>Version = 0, Payload = []\<rparr>"
| "json_decode_State fm ro (JSON (JObject ms)) =
     (case decode_members fm ro ms 0 of
        None \<Rightarrow> None
      | Some v \<Rightarrow> Some \<lparr>Version = v, Payload = filter (\<lambda>m. \<not> fm (fst m)) ms\<rparr>)"
| "json_decode_State fm ro (JSON j) = None"

subsection \<open>\<^verbatim>\<open>yaml.v3\<close> into a struct of strings\<close>

text \<open>
  \<^verbatim>\<open>yaml.Marshal\<close> of the map gives a document with the same entries; the model keeps
  the document and leaves its text out. \<^verbatim>\<open>yaml.Unmarshal\<close> into a string field takes
  the text of any scalar, leaves the field as it is at \<^verbatim>\<open>null\<close> or when the document
  has no such key, and reports a type error for a sequence or a mapping.
\<close>

fun yaml_string_field :: "(string \<times> yaml_value) list \<Rightarrow> string \<Rightarrow> string option" where
  "yaml_string_field doc k =
     (case map_of doc k of
        None \<Rightarrow> Some []
      | Some YNull \<Rightarrow> Some []
      | Some (YString s) \<Rightarrow> Some s
      | Some (YInt i) \<Rightarrow> Some (show_int i)
      | Some (YBool b) \<Rightarrow> Some (if b then ''true'' else ''false'')
      | Some (YFloat t) \<Rightarrow> Some t
      | Some (YSeq xs) \<Rightarrow> None
      | Some (YMap ms) \<Rightarrow> None)"

definition yaml_type_error :: string where
  "yaml_type_error = ''yaml: unmarshal errors''"

text \<open>The keys are those of the \<^verbatim>\<open>yaml\<close> tags of \<^verbatim>\<open>S3BackendConfig\<close>.\<close>

definition yaml_Unmarshal_S3 :: "(string \<times> yaml_value) list \<Rightarrow> string + S3BackendConfig" where
  "yaml_Unmarshal_S3 doc =
     (case (yaml_string_field doc ''bucket'', yaml_string_field doc ''key'',
            yaml_string_field doc ''region'', yaml_string_field doc ''role_arn'') of
        (Some b, Some k, Some r, Some a) \<Rightarrow> Inr \<lparr>Bucket = b, Key = k, Region = r, RoleArn = a\<rparr>
      | _ \<Rightarrow> Inl yaml_type_error)"

definition yaml_Unmarshal_Local :: "(string \<times> yaml_value) list \<Rightarrow> string + LocalBackendConfig" where
  "yaml_Unmarshal_Local doc =
     (case yaml_string_field doc ''path'' of
        Some p \<Rightarrow> Inr \<lparr>Path = p\<rparr>
      | None \<Rightarrow> Inl yaml_type_error)"


subsection \<open>\<^verbatim>\<open>gohcl.DecodeBody\<close> into a struct of strings\<close>

text \<open>
  The schema comes from the \<^verbatim>\<open>hcl\<close> tags: each field is an attribute, required unless
  the tag says \<^verbatim>\<open>optional\<close>; the structs declare no block. The body must hold no block,
  no attribute outside the schema and every required attribute. A string, a number or a
  boolean converts to a string; \<^verbatim>\<open>null\<close>, a list or an object does not.
\<close>

fun cty_to_string :: "cty_value \<Rightarrow> string option" where
  "cty_to_string (CtyString s) = Some s"
| "cty_to_string (CtyNumber n) = Some (show_int n)"
| "cty_to_string (CtyBool b) = Some (if b then ''true'' else ''false'')"
| "cty_to_string v = None"

definition hcl_content_ok :: "(string \<times> bool) list \<Rightarrow> hcl_body \<Rightarrow> bool" where
  "hcl_content_ok schema body \<longleftrightarrow>
     blocks body = []
     \<and> list_all (\<lambda>a. fst a \<in> set (map fst schema)) (attributes body)
     \<and> list_all (\<lambda>f. snd f \<longrightarrow> map_of (attributes body) (fst f) \<noteq> None) schema"

fun hcl_string_field :: "hcl_body \<Rightarrow> string \<Rightarrow> string option" where
  "hcl_string_field body k =
     (case map_of (attributes body) k of
        None \<Rightarrow> Some []
      | Some v \<Rightarrow> cty_to_string v)"

definition S3_schema :: "(string \<times> bool) list" where
  "S3_schema = [(''bucket'', True), (''key'', True), (''region'', True), (''role_arn'', False)]"

definition Local_schema :: "(string \<times> bool) list" where
  "Local_schema = [(''path'', True)]"

definition gohcl_DecodeBody_S3 :: "hcl_body \<Rightarrow> S3BackendConfig option" where
  "gohcl_DecodeBody_S3 body =
     (if hcl_content_ok S3_schema body then
        (case (hcl_string_field body ''bucket'', hcl_string_field body ''key'',
               hcl_string_field body ''region'', hcl_string_field body ''role_arn'') of
           (Some b, Some k, Some r, Some a) \<Rightarrow> Some \<lparr>Bucket = b, Key = k, Region = r, RoleArn = a\<rparr>
         | _ \<Rightarrow> None)
      else None)"

definition gohcl_DecodeBody_Local :: "hcl_body \<Rightarrow> LocalBackendConfig option" where
  "gohcl_DecodeBody_Local body =
     (if hcl_content_ok Local_schema body then
        (case hcl_string_field body ''path'' of
           Some p \<Rightarrow> Some \<lparr>Path = p\<rparr>
         | None \<Rightarrow> None)
      else None)"

subsection \<open>An environment with these libraries\<close>

text \<open>
  The outside world of a run: what each call to the filesystem and to the network
  answers.
\<close>

record world =
  w_new_session :: "string option"
  w_get_bucket_region :: "string \<Rightarrow> string \<Rightarrow> string + string"
  w_new_session_with_options :: "string \<Rightarrow> string option"
  w_arn_parse :: "string \<Rightarrow> string + string"
  w_get_object :: "credentials \<Rightarrow> string \<Rightarrow> string \<Rightarrow> string \<Rightarrow> string + json_text"
  w_os_open :: "string \<Rightarrow> json_text option"

text \<open>
  The environment of the library models over a world. \<open>hcl\<close> and \<open>ver\<close> are the two
  constants declared outside this file.
\<close>

definition lib_env ::
  "int \<Rightarrow> int \<Rightarrow> (string \<Rightarrow> bool) \<Rightarrow> (string \<Rightarrow> json \<Rightarrow> bool) \<Rightarrow> world
   \<Rightarrow> (json_text, (string \<times> yaml_value) list, (string \<times> json) list) env" where
  "lib_env hcl ver fm ro w =
     \<lparr>ConfigHCL = hcl, StateVersion = ver,
      json_decode = json_decode_State fm ro,
      gohcl_decode_s3 = gohcl_DecodeBody_S3,
      gohcl_decode_local = gohcl_DecodeBody_Local,
      yaml_marshal = (\<lambda>m. m),
      yaml_unmarshal_s3 = yaml_Unmarshal_S3,
      yaml_unmarshal_local = yaml_Unmarshal_Local,
      new_session = w_new_session w,
      get_bucket_region = w_get_bucket_region w,
      new_session_with_options = w_new_session_with_options w,
      arn_parse = w_arn_parse w,
      get_object = w_get_object w,
      os_open = w_os_open w\<rparr>"

subsection \<open>\<^verbatim>\<open>arn.Parse\<close>\<close>

text \<open>
  \<^verbatim>\<open>arn.Parse\<close> wants the prefix \<^verbatim>\<open>arn:\<close> and six sections between colons, the last
  one holding the rest; \<^verbatim>\<open>String()\<close> joins the sections again, which gives the input.
\<close>

definition aws_arn_Parse :: "string \<Rightarrow> string + string" where
  "aws_arn_Parse s =
     (if take 4 s \<noteq> ''arn:'' then Inl ''arn: invalid prefix''
      else if length (filter (\<lambda>c. c = CHR '':'') s) < 5 then Inl ''arn: not enough sections''
      else Inr s)"

section \<open>A sample world\<close>

text \<open>
  One bucket in \<^verbatim>\<open>eu-west-1\<close> with one state object of version 4, and two local files,
  of version 4 and of version 3.
\<close>

definition sample_state :: "int \<Rightarrow> json_text" where
  "sample_state v = JSON (JObject [(''version'', JInt v), (''serial'', JInt 7)])"

definition sample_world :: world where
  "sample_world =
     \<lparr>w_new_session = None,
      w_get_bucket_region =
        (\<lambda>b h. if b = ''tfstate-bucket'' then Inr ''eu-west-1'' else Inl ''NotFound: Not Found''),
      w_new_session_with_options = (\<lambda>r. None),
      w_arn_parse = aws_arn_Parse,
      w_get_object =
        (\<lambda>c r b k. if b = ''tfstate-bucket'' \<and> k = ''prod/terraform.tfstate''
           then Inr (sample_state 4) else Inl ''NoSuchKey: The specified key does not exist.''),
      w_os_open =
        (\<lambda>p. if p = ''terraform.tfstate'' then Some (sample_state 4)
             else if p = ''old.tfstate'' then Some (sample_state 3)
             else None)\<rparr>"

text \<open>
  The sample environment: \<^verbatim>\<open>cqproto.ConfigHCL\<close> is 0 and \<^verbatim>\<open>cqproto.ConfigYAML\<close> is 1,
  the state version is 4, and every member of a state other than \<^verbatim>\<open>version\<close> is accepted.
\<close>

definition sample_env ::
  "(json_text, (string \<times> yaml_value) list, (string \<times> json) list) env" where
  "sample_env = lib_env 0 4 (\<lambda>k. k = ''version'') (\<lambda>k j. True) sample_world"

definition sample_block :: "string \<Rightarrow> iface \<Rightarrow> (string \<times> yaml_value) list \<Rightarrow> int \<Rightarrow> BackendConfigBlock" where
  "sample_block kind body attrs fmt =
     \<lparr>cfg_BackendName = ''mybackend'', cfg_BackendType = kind,
      ConfigAttrsHCL = body, ConfigAttrsYAML = attrs, format = fmt\<rparr>"

section \<open>Auxiliary facts\<close>

lemma bind_Ok: "bind (Ok a, t) f = (fst (f a), t @ snd (f a))"
  by (simp add: bind_def split: prod.splits)

lemma bind_Err: "bind (Err e, t) f = (Err e, t)"
  by (simp add: bind_def)

lemma bind_Panic: "bind (Panic, t) f = (Panic, t)"
  by (simp add: bind_def)

lemmas bind_simps = bind_Ok bind_Err bind_Panic

lemmas stage_defs = resolveRegion_def newRegionSession_def resolveCredentials_def fetchState_def

lemmas sample_defs = sample_env_def lib_env_def sample_world_def sample_block_def sample_state_def

lemma decodeS3Config_Ok_trace:
  "decodeS3Config env c = (Ok b, t) \<Longrightarrow> t = [HclDecodeBody] \<or> t = [YamlMarshal, YamlUnmarshal]"
  by (auto simp: decodeS3Config_def split: if_splits iface.splits option.splits sum.splits)

lemma decodeS3Config_Err:
  "decodeS3Config env c = (Err e, t) \<Longrightarrow>
     (\<exists>m. e = CannotParseConfig S3 m) \<and> (t = [HclDecodeBody] \<or> t = [YamlMarshal, YamlUnmarshal])"
  by (auto simp: decodeS3Config_def split: if_splits iface.splits option.splits sum.splits)

lemma decodeLocalConfig_Err:
  "decodeLocalConfig env c = (Err e, t) \<Longrightarrow>
     (\<exists>m. e = CannotParseConfig LOCAL m) \<and> (t = [HclDecodeBody] \<or> t = [YamlMarshal, YamlUnmarshal])"
  by (auto simp: decodeLocalConfig_def split: if_splits iface.splits option.splits sum.splits)

lemma parseAndValidate_Ok:
  "parseAndValidate env r = Ok d \<Longrightarrow>
     Version (State d) = StateVersion env \<and> json_decode env r = Some (State d)"
  by (auto simp: parseAndValidate_def split: option.splits if_splits)

lemma parseAndValidate_decode_error:
  "json_decode env r = None \<Longrightarrow> parseAndValidate env r = Err InvalidTfState"
  by (simp add: parseAndValidate_def)

lemma map_outcome_Ok:
  "map_outcome f x = Ok y \<Longrightarrow> \<exists>d. x = Ok d \<and> y = f d"
  by (cases x) auto

lemma readLocalState_Ok:
  "readLocalState env c b = (Ok tb, t) \<Longrightarrow> Version (State (Data tb)) = StateVersion env"
  by (auto simp: readLocalState_def split: option.splits dest!: map_outcome_Ok parseAndValidate_Ok)

lemma fetchState_Ok:
  "fetchState env c b cr = (Ok tb, t) \<Longrightarrow> Version (State (Data tb)) = StateVersion env"
  by (auto simp: fetchState_def split: sum.splits dest!: map_outcome_Ok parseAndValidate_Ok)

lemma bind_Ok_result:
  "bind m f = (Ok y, t) \<Longrightarrow> \<exists>a t1 t2. m = (Ok a, t1) \<and> f a = (Ok y, t2)"
  by (cases m; cases "fst m") (auto simp: bind_def split: prod.splits)

lemma NewLocal_Ok:
  "NewLocalTerraformBackend env c = (Ok tb, t) \<Longrightarrow> Version (State (Data tb)) = StateVersion env"
  unfolding NewLocalTerraformBackend_def
  by (blast dest: bind_Ok_result readLocalState_Ok)

lemma NewS3_Ok:
  "NewS3TerraformBackend env c = (Ok tb, t) \<Longrightarrow> Version (State (Data tb)) = StateVersion env"
  unfolding NewS3TerraformBackend_def
  by (blast dest: bind_Ok_result fetchState_Ok)

section \<open>The state parser and validator\<close>

text \<open>
  C3. Whenever JSON decoding succeeds with a version other than \<^verbatim>\<open>StateVersion\<close>,
  \<^verbatim>\<open>parseAndValidate\<close> fails with the version error, which carries the version found,
  whatever the rest of the document holds. A document that \<^verbatim>\<open>parseAndValidate\<close>
  returns, and one that \<^verbatim>\<open>NewBackend\<close> hands to its caller, has the version
  \<^verbatim>\<open>StateVersion\<close>.
\<close>

theorem version_gate:
  "(json_decode env r = Some s \<and> Version s \<noteq> StateVersion env \<longrightarrow>
      parseAndValidate env r = Err (UnsupportedStateVersion (Version s))
      \<and> error_message (UnsupportedStateVersion (Version s))
          = ''unsupported state version '' @ show_int (Version s))
   \<and> (parseAndValidate env r' = Ok d \<longrightarrow>
        Version (State d) = StateVersion env \<and> json_decode env r' = Some (State d))
   \<and> (NewBackend env cfg = (Ok tb, t) \<longrightarrow> Version (State (Data tb)) = StateVersion env)"
proof (intro conjI impI)
  assume "json_decode env r = Some s \<and> Version s \<noteq> StateVersion env"
  then show "parseAndValidate env r = Err (UnsupportedStateVersion (Version s))"
    by (simp add: parseAndValidate_def)
next
  assume "parseAndValidate env r' = Ok d"
  then show "Version (State d) = StateVersion env" "json_decode env r' = Some (State d)"
    by (simp_all add: parseAndValidate_Ok)
next
  assume "NewBackend env cfg = (Ok tb, t)"
  then show "Version (State (Data tb)) = StateVersion env"
    by (auto simp: NewBackend_def split: if_splits dest: NewLocal_Ok NewS3_Ok)
qed simp

theorem version_gate_witness:
  "(json_decode sample_env (sample_state 3) = Some \<lparr>Version = 3, Payload = [(''serial'', JInt 7)]\<rparr>
      \<and> (3::int) \<noteq> StateVersion sample_env)
   \<and> parseAndValidate sample_env (sample_state 3) = Err (UnsupportedStateVersion 3)
   \<and> parseAndValidate sample_env (sample_state 4)
       = Ok \<lparr>State = \<lparr>Version = 4, Payload = [(''serial'', JInt 7)]\<rparr>\<rparr>
   \<and> NewBackend sample_env (sample_block ''local'' INil [(''path'', YString ''terraform.tfstate'')] 1)
       = (Ok \<lparr>BackendType = ''local'', BackendName = ''mybackend'',
              Data = \<lparr>State = \<lparr>Version = 4, Payload = [(''serial'', JInt 7)]\<rparr>\<rparr>\<rparr>,
          [YamlMarshal, YamlUnmarshal, OsOpen ''terraform.tfstate'', JsonDecode,
           FileClose ''terraform.tfstate''])
   \<and> StateVersion sample_env = 4"
  using version_gate [where env = sample_env and r = "sample_state 3"
      and s = "\<lparr>Version = 3, Payload = [(''serial'', JInt 7)]\<rparr>"
      and r' = "sample_state 4"
      and d = "\<lparr>State = \<lparr>Version = 4, Payload = [(''serial'', JInt 7)]\<rparr>\<rparr>"
      and cfg = "sample_block ''local'' INil [(''path'', YString ''terraform.tfstate'')] 1"
      and tb = "\<lparr>BackendType = ''local'', BackendName = ''mybackend'',
              Data = \<lparr>State = \<lparr>Version = 4, Payload = [(''serial'', JInt 7)]\<rparr>\<rparr>\<rparr>"
      and t = "[YamlMarshal, YamlUnmarshal, OsOpen ''terraform.tfstate'', JsonDecode,
           FileClose ''terraform.tfstate'']"]
  by (simp add: sample_defs parseAndValidate_def NewBackend_def NewLocalTerraformBackend_def
      decodeLocalConfig_def readLocalState_def yaml_Unmarshal_Local_def bind_simps LOCAL_def)

section \<open>The factory\<close>

text \<open>
  C4. For every backend type other than \<^verbatim>\<open>"local"\<close> and \<^verbatim>\<open>"s3"\<close>,
  \<^verbatim>\<open>NewBackend\<close> fails with the unsupported-backend error and its run has no event:
  no decoder was called, and neither the network nor the filesystem was reached.
\<close>

theorem unsupported_backend_immediate:
  "cfg_BackendType cfg \<noteq> ''local'' \<Longrightarrow> cfg_BackendType cfg \<noteq> ''s3'' \<Longrightarrow>
     NewBackend env cfg = (Err UnsupportedBackend, [])
     \<and> error_message UnsupportedBackend = ''unsupported backend''"
  by (simp add: NewBackend_def)

theorem unsupported_backend_immediate_witness:
  "''unsupported-kind'' \<noteq> ''local'' \<and> ''unsupported-kind'' \<noteq> ''s3''
   \<and> NewBackend sample_env (sample_block ''unsupported-kind'' INil [] 0) = (Err UnsupportedBackend, [])"
  using unsupported_backend_immediate [where env = sample_env
      and cfg = "sample_block ''unsupported-kind'' INil [] 0"]
  by (simp add: sample_block_def)

lemma decodeLocalConfig_Ok_trace:
  "decodeLocalConfig env c = (Ok b, t) \<Longrightarrow> t = [HclDecodeBody] \<or> t = [YamlMarshal, YamlUnmarshal]"
  by (auto simp: decodeLocalConfig_def split: if_splits iface.splits option.splits sum.splits)

section \<open>The local strategy\<close>

text \<open>
  C7. After the config of a local backend is decoded: when the file at its path cannot
  be opened, \<^verbatim>\<open>NewLocalTerraformBackend\<close> fails with the error that names the path, and
  \<^verbatim>\<open>os.Open\<close> is the only call made; when the file opens and holds a state that decodes
  with the supported version, the result has type \<^verbatim>\<open>LOCAL\<close>, the name of the config
  block and that state, and the file is closed.
\<close>

theorem local_resolve:
  assumes "decodeLocalConfig env c = (Ok b, t)"
      and "decodeLocalConfig env c' = (Ok b', t')"
  shows "(os_open env (Path b) = None \<longrightarrow>
            NewLocalTerraformBackend env c = (Err (FailedToReadTfstate (Path b)), t @ [OsOpen (Path b)])
            \<and> error_message (FailedToReadTfstate (Path b)) = ''failed to read tfstate from '' @ Path b)
       \<and> (os_open env (Path b') = Some f \<and> json_decode env f = Some s \<and> Version s = StateVersion env \<longrightarrow>
            NewLocalTerraformBackend env c'
              = (Ok \<lparr>BackendType = LOCAL, BackendName = cfg_BackendName c', Data = \<lparr>State = s\<rparr>\<rparr>,
                 t' @ [OsOpen (Path b'), JsonDecode, FileClose (Path b')]))"
  using assms
  by (simp add: NewLocalTerraformBackend_def bind_simps readLocalState_def parseAndValidate_def)

theorem local_resolve_witness:
  "decodeLocalConfig sample_env (sample_block ''local'' INil [(''path'', YString ''missing.tfstate'')] 1)
     = (Ok \<lparr>Path = ''missing.tfstate''\<rparr>, [YamlMarshal, YamlUnmarshal])
   \<and> decodeLocalConfig sample_env
       (sample_block ''local'' (IBody \<lparr>attributes = [(''path'', CtyString ''terraform.tfstate'')], blocks = []\<rparr>) [] 0)
     = (Ok \<lparr>Path = ''terraform.tfstate''\<rparr>, [HclDecodeBody])
   \<and> os_open sample_env ''missing.tfstate'' = None
   \<and> os_open sample_env ''terraform.tfstate'' = Some (sample_state 4)
   \<and> json_decode sample_env (sample_state 4) = Some \<lparr>Version = 4, Payload = [(''serial'', JInt 7)]\<rparr>
   \<and> StateVersion sample_env = 4
   \<and> NewLocalTerraformBackend sample_env
        (sample_block ''local'' INil [(''path'', YString ''missing.tfstate'')] 1)
       = (Err (FailedToReadTfstate ''missing.tfstate''),
          [YamlMarshal, YamlUnmarshal, OsOpen ''missing.tfstate''])
   \<and> NewLocalTerraformBackend sample_env
        (sample_block ''local'' (IBody \<lparr>attributes = [(''path'', CtyString ''terraform.tfstate'')], blocks = []\<rparr>) [] 0)
       = (Ok \<lparr>BackendType = ''local'', BackendName = ''mybackend'',
              Data = \<lparr>State = \<lparr>Version = 4, Payload = [(''serial'', JInt 7)]\<rparr>\<rparr>\<rparr>,
          [HclDecodeBody, OsOpen ''terraform.tfstate'', JsonDecode, FileClose ''terraform.tfstate''])"
proof -
  have d1: "decodeLocalConfig sample_env (sample_block ''local'' INil [(''path'', YString ''missing.tfstate'')] 1)
     = (Ok \<lparr>Path = ''missing.tfstate''\<rparr>, [YamlMarshal, YamlUnmarshal])"
    by (simp add: sample_defs decodeLocalConfig_def yaml_Unmarshal_Local_def)
  have d2: "decodeLocalConfig sample_env
       (sample_block ''local'' (IBody \<lparr>attributes = [(''path'', CtyString ''terraform.tfstate'')], blocks = []\<rparr>) [] 0)
     = (Ok \<lparr>Path = ''terraform.tfstate''\<rparr>, [HclDecodeBody])"
    by (simp add: sample_defs decodeLocalConfig_def gohcl_DecodeBody_Local_def hcl_content_ok_def Local_schema_def)
  have w: "os_open sample_env ''missing.tfstate'' = None
     \<and> os_open sample_env ''terraform.tfstate'' = Some (sample_state 4)
     \<and> json_decode sample_env (sample_state 4) = Some \<lparr>Version = 4, Payload = [(''serial'', JInt 7)]\<rparr>
     \<and> StateVersion sample_env = 4"
    by (simp add: sample_defs)
  show ?thesis
    using d1 d2 w
      local_resolve [OF d1 d2, where f = "sample_state 4"
        and s = "\<lparr>Version = 4, Payload = [(''serial'', JInt 7)]\<rparr>"]
    by (simp add: LOCAL_def sample_block_def)
qed

section \<open>The S3 strategy\<close>

text \<open>
  C5. After the config of an S3 backend is decoded with an empty region: the run looks
  the region of the bucket up at most once, with the hint \<^verbatim>\<open>us-east-1\<close>; it does so
  exactly once whenever \<^verbatim>\<open>session.NewSession\<close> gives a session (\<^verbatim>\<open>session.Must\<close>
  panics otherwise, before any lookup); in a run that fetches the object, the lookup comes
  before the fetch; and an error of the lookup is returned as it is, with no further
  call. With a region in the config, the run makes no lookup.
\<close>

theorem region_discovery_once:
  assumes "decodeS3Config env c = (Ok b, t)" and "Region b = []"
      and "decodeS3Config env c' = (Ok b', t')" and "Region b' \<noteq> []"
      and "decodeS3Config env c'' = (Ok b'', t'')" and "Region b'' = []"
  shows "(new_session env = None \<longrightarrow>
            filter is_lookup (snd (NewS3TerraformBackend env c)) = [GetBucketRegion (Bucket b) ''us-east-1''])
       \<and> length (filter is_lookup (snd (NewS3TerraformBackend env c))) \<le> 1
       \<and> ((\<exists>e \<in> set (snd (NewS3TerraformBackend env c)). is_fetch e) \<longrightarrow>
            filter is_lookup (takeWhile (\<lambda>e. \<not> is_fetch e) (snd (NewS3TerraformBackend env c)))
              = [GetBucketRegion (Bucket b) ''us-east-1''])
       \<and> (new_session env = None \<and> get_bucket_region env (Bucket b'') ''us-east-1'' = Inl m \<longrightarrow>
            NewS3TerraformBackend env c''
              = (Err (External m), t'' @ [NewSession, GetBucketRegion (Bucket b'') ''us-east-1'']))
       \<and> filter is_lookup (snd (NewS3TerraformBackend env c')) = []"
proof (intro conjI impI)
  note defs = NewS3TerraformBackend_def bind_simps stage_defs
  note t = decodeS3Config_Ok_trace [OF assms(1)]
  assume "new_session env = None"
  with assms(1,2) t
  show "filter is_lookup (snd (NewS3TerraformBackend env c)) = [GetBucketRegion (Bucket b) ''us-east-1'']"
    by (auto simp: defs split: option.splits sum.splits)
next
  note defs = NewS3TerraformBackend_def bind_simps stage_defs
  note t = decodeS3Config_Ok_trace [OF assms(1)]
  from assms(1,2) t
  show "length (filter is_lookup (snd (NewS3TerraformBackend env c))) \<le> 1"
    by (auto simp: defs split: option.splits sum.splits)
next
  note defs = NewS3TerraformBackend_def bind_simps stage_defs
  note t = decodeS3Config_Ok_trace [OF assms(1)]
  assume "\<exists>e \<in> set (snd (NewS3TerraformBackend env c)). is_fetch e"
  with assms(1,2) t
  show "filter is_lookup (takeWhile (\<lambda>e. \<not> is_fetch e) (snd (NewS3TerraformBackend env c)))
          = [GetBucketRegion (Bucket b) ''us-east-1'']"
    by (auto simp: defs split: option.splits sum.splits)
next
  note defs = NewS3TerraformBackend_def bind_simps stage_defs
  assume "new_session env = None \<and> get_bucket_region env (Bucket b'') ''us-east-1'' = Inl m"
  with assms(5,6)
  show "NewS3TerraformBackend env c''
          = (Err (External m), t'' @ [NewSession, GetBucketRegion (Bucket b'') ''us-east-1''])"
    by (simp add: defs)
next
  note defs = NewS3TerraformBackend_def bind_simps stage_defs
  note t = decodeS3Config_Ok_trace [OF assms(3)]
  from assms(3,4) t
  show "filter is_lookup (snd (NewS3TerraformBackend env c')) = []"
    by (auto simp: defs split: option.splits sum.splits)
qed

theorem region_discovery_once_witness:
  "decodeS3Config sample_env
     (sample_block ''s3'' INil
        [(''bucket'', YString ''tfstate-bucket''), (''key'', YString ''prod/terraform.tfstate'')] 1)
     = (Ok \<lparr>Bucket = ''tfstate-bucket'', Key = ''prod/terraform.tfstate'', Region = [], RoleArn = []\<rparr>,
        [YamlMarshal, YamlUnmarshal])
   \<and> decodeS3Config sample_env
     (sample_block ''s3'' INil
        [(''bucket'', YString ''tfstate-bucket''), (''key'', YString ''prod/terraform.tfstate''),
         (''region'', YString ''eu-west-1'')] 1)
     = (Ok \<lparr>Bucket = ''tfstate-bucket'', Key = ''prod/terraform.tfstate'', Region = ''eu-west-1'',
            RoleArn = []\<rparr>,
        [YamlMarshal, YamlUnmarshal])
   \<and> decodeS3Config sample_env
     (sample_block ''s3'' INil [(''bucket'', YString ''elsewhere''), (''key'', YString ''k'')] 1)
     = (Ok \<lparr>Bucket = ''elsewhere'', Key = ''k'', Region = [], RoleArn = []\<rparr>,
        [YamlMarshal, YamlUnmarshal])
   \<and> new_session sample_env = None
   \<and> get_bucket_region sample_env ''elsewhere'' ''us-east-1'' = Inl ''NotFound: Not Found''
   \<and> snd (NewS3TerraformBackend sample_env
        (sample_block ''s3'' INil
          [(''bucket'', YString ''tfstate-bucket''), (''key'', YString ''prod/terraform.tfstate'')] 1))
       = [YamlMarshal, YamlUnmarshal, NewSession, GetBucketRegion ''tfstate-bucket'' ''us-east-1'',
          NewSessionWithOptions ''eu-west-1'',
          GetObject SessionCredentials ''eu-west-1'' ''tfstate-bucket'' ''prod/terraform.tfstate'',
          JsonDecode]
   \<and> NewS3TerraformBackend sample_env
        (sample_block ''s3'' INil [(''bucket'', YString ''elsewhere''), (''key'', YString ''k'')] 1)
       = (Err (External ''NotFound: Not Found''),
          [YamlMarshal, YamlUnmarshal, NewSession, GetBucketRegion ''elsewhere'' ''us-east-1''])
   \<and> filter is_lookup (snd (NewS3TerraformBackend sample_env
        (sample_block ''s3'' INil
          [(''bucket'', YString ''tfstate-bucket''), (''key'', YString ''prod/terraform.tfstate''),
           (''region'', YString ''eu-west-1'')] 1))) = []"
proof -
  let ?c = "sample_block ''s3'' INil
        [(''bucket'', YString ''tfstate-bucket''), (''key'', YString ''prod/terraform.tfstate'')] 1"
  let ?c' = "sample_block ''s3'' INil
        [(''bucket'', YString ''tfstate-bucket''), (''key'', YString ''prod/terraform.tfstate''),
         (''region'', YString ''eu-west-1'')] 1"
  let ?c'' = "sample_block ''s3'' INil [(''bucket'', YString ''elsewhere''), (''key'', YString ''k'')] 1"
  have d: "decodeS3Config sample_env ?c
     = (Ok \<lparr>Bucket = ''tfstate-bucket'', Key = ''prod/terraform.tfstate'', Region = [], RoleArn = []\<rparr>,
        [YamlMarshal, YamlUnmarshal])"
    by (simp add: sample_defs decodeS3Config_def yaml_Unmarshal_S3_def)
  have d': "decodeS3Config sample_env ?c'
     = (Ok \<lparr>Bucket = ''tfstate-bucket'', Key = ''prod/terraform.tfstate'', Region = ''eu-west-1'',
            RoleArn = []\<rparr>,
        [YamlMarshal, YamlUnmarshal])"
    by (simp add: sample_defs decodeS3Config_def yaml_Unmarshal_S3_def)
  have d'': "decodeS3Config sample_env ?c''
     = (Ok \<lparr>Bucket = ''elsewhere'', Key = ''k'', Region = [], RoleArn = []\<rparr>,
        [YamlMarshal, YamlUnmarshal])"
    by (simp add: sample_defs decodeS3Config_def yaml_Unmarshal_S3_def)
  have w: "new_session sample_env = None
     \<and> get_bucket_region sample_env ''elsewhere'' ''us-east-1'' = Inl ''NotFound: Not Found''"
    by (simp add: sample_defs)
  have run: "snd (NewS3TerraformBackend sample_env ?c)
       = [YamlMarshal, YamlUnmarshal, NewSession, GetBucketRegion ''tfstate-bucket'' ''us-east-1'',
          NewSessionWithOptions ''eu-west-1'',
          GetObject SessionCredentials ''eu-west-1'' ''tfstate-bucket'' ''prod/terraform.tfstate'',
          JsonDecode]"
    by (simp add: NewS3TerraformBackend_def decodeS3Config_def yaml_Unmarshal_S3_def bind_simps
        stage_defs sample_defs)
  show ?thesis
    using d d' d'' w run
      region_discovery_once [OF d _ d' _ d'' _, where m = "''NotFound: Not Found''"]
    by simp
qed




section \<open>The dispatch on the format\<close>

text \<open>
  C9. With the format \<^verbatim>\<open>ConfigHCL\<close> and a \<^verbatim>\<open>ConfigAttrsHCL\<close> that holds no
  \<^verbatim>\<open>hcl.Body\<close>, both strategies panic at the type assertion, before any call. With
  the format \<^verbatim>\<open>ConfigHCL\<close>, a strategy returns its cannot-parse error only when the
  payload is a body that \<^verbatim>\<open>gohcl.DecodeBody\<close> rejects.
\<close>

theorem hcl_type_assertion_panics:
  assumes "format c = ConfigHCL env"
      and "ConfigAttrsHCL c = INil \<or> ConfigAttrsHCL c = IOther"
      and "format c' = ConfigHCL env"
  shows "NewS3TerraformBackend env c = (Panic, [])
       \<and> NewLocalTerraformBackend env c = (Panic, [])
       \<and> (fst (NewS3TerraformBackend env c') = Err (CannotParseConfig k m) \<longrightarrow>
            (\<exists>body. ConfigAttrsHCL c' = IBody body \<and> gohcl_decode_s3 env body = None)
            \<and> k = S3 \<and> m = None \<and> snd (NewS3TerraformBackend env c') = [HclDecodeBody])
       \<and> (fst (NewLocalTerraformBackend env c') = Err (CannotParseConfig k' m') \<longrightarrow>
            (\<exists>body. ConfigAttrsHCL c' = IBody body \<and> gohcl_decode_local env body = None)
            \<and> k' = LOCAL \<and> m' = None \<and> snd (NewLocalTerraformBackend env c') = [HclDecodeBody])"
proof (intro conjI impI)
  from assms(1,2) show "NewS3TerraformBackend env c = (Panic, [])"
    by (auto simp: NewS3TerraformBackend_def decodeS3Config_def bind_simps)
next
  from assms(1,2) show "NewLocalTerraformBackend env c = (Panic, [])"
    by (auto simp: NewLocalTerraformBackend_def decodeLocalConfig_def bind_simps)
next
  assume h: "fst (NewS3TerraformBackend env c') = Err (CannotParseConfig k m)"
  with assms(3)
  have "(\<exists>body. ConfigAttrsHCL c' = IBody body \<and> gohcl_decode_s3 env body = None)
      \<and> k = S3 \<and> m = None \<and> snd (NewS3TerraformBackend env c') = [HclDecodeBody]"
    by (auto simp: NewS3TerraformBackend_def decodeS3Config_def bind_simps stage_defs
        parseAndValidate_def
        split: iface.splits option.splits sum.splits if_splits)
  then show "\<exists>body. ConfigAttrsHCL c' = IBody body \<and> gohcl_decode_s3 env body = None"
    and "k = S3" and "m = None" and "snd (NewS3TerraformBackend env c') = [HclDecodeBody]"
    by simp_all
next
  assume h: "fst (NewLocalTerraformBackend env c') = Err (CannotParseConfig k' m')"
  with assms(3)
  have "(\<exists>body. ConfigAttrsHCL c' = IBody body \<and> gohcl_decode_local env body = None)
      \<and> k' = LOCAL \<and> m' = None \<and> snd (NewLocalTerraformBackend env c') = [HclDecodeBody]"
    by (auto simp: NewLocalTerraformBackend_def decodeLocalConfig_def bind_simps readLocalState_def
        parseAndValidate_def
        split: iface.splits option.splits sum.splits if_splits)
  then show "\<exists>body. ConfigAttrsHCL c' = IBody body \<and> gohcl_decode_local env body = None"
    and "k' = LOCAL" and "m' = None" and "snd (NewLocalTerraformBackend env c') = [HclDecodeBody]"
    by simp_all
qed

theorem hcl_type_assertion_panics_witness:
  "format (sample_block ''s3'' INil [(''bucket'', YString ''tfstate-bucket'')] 0) = ConfigHCL sample_env
   \<and> ConfigAttrsHCL (sample_block ''s3'' INil [(''bucket'', YString ''tfstate-bucket'')] 0) = INil
   \<and> format (sample_block ''s3'' (IBody \<lparr>attributes = [], blocks = []\<rparr>) [] 0) = ConfigHCL sample_env
   \<and> NewS3TerraformBackend sample_env
       (sample_block ''s3'' INil [(''bucket'', YString ''tfstate-bucket'')] 0) = (Panic, [])
   \<and> NewLocalTerraformBackend sample_env
       (sample_block ''s3'' INil [(''bucket'', YString ''tfstate-bucket'')] 0) = (Panic, [])
   \<and> NewS3TerraformBackend sample_env (sample_block ''s3'' (IBody \<lparr>attributes = [], blocks = []\<rparr>) [] 0)
       = (Err (CannotParseConfig ''s3'' None), [HclDecodeBody])
   \<and> NewLocalTerraformBackend sample_env (sample_block ''s3'' (IBody \<lparr>attributes = [], blocks = []\<rparr>) [] 0)
       = (Err (CannotParseConfig ''local'' None), [HclDecodeBody])
   \<and> gohcl_decode_s3 sample_env \<lparr>attributes = [], blocks = []\<rparr> = None
   \<and> gohcl_decode_local sample_env \<lparr>attributes = [], blocks = []\<rparr> = None"
proof -
  let ?c = "sample_block ''s3'' INil [(''bucket'', YString ''tfstate-bucket'')] 0"
  let ?c' = "sample_block ''s3'' (IBody \<lparr>attributes = [], blocks = []\<rparr>) [] 0"
  have f: "format ?c = ConfigHCL sample_env" "ConfigAttrsHCL ?c = INil \<or> ConfigAttrsHCL ?c = IOther"
    "format ?c' = ConfigHCL sample_env"
    by (simp_all add: sample_defs)
  have g: "gohcl_decode_s3 sample_env \<lparr>attributes = [], blocks = []\<rparr> = None
     \<and> gohcl_decode_local sample_env \<lparr>attributes = [], blocks = []\<rparr> = None"
    by (simp add: sample_defs gohcl_DecodeBody_S3_def gohcl_DecodeBody_Local_def hcl_content_ok_def
        S3_schema_def Local_schema_def)
  have r: "NewS3TerraformBackend sample_env ?c' = (Err (CannotParseConfig ''s3'' None), [HclDecodeBody])
     \<and> NewLocalTerraformBackend sample_env ?c' = (Err (CannotParseConfig ''local'' None), [HclDecodeBody])"
    using g
    by (simp add: NewS3TerraformBackend_def NewLocalTerraformBackend_def decodeS3Config_def
        decodeLocalConfig_def bind_simps S3_def LOCAL_def sample_block_def)
      (simp add: sample_defs)
  show ?thesis
    using f g r
      hcl_type_assertion_panics [OF f, where k = "''s3''" and m = None and k' = "''local''" and m' = None]
    by (simp add: sample_block_def S3_def LOCAL_def)
qed

text \<open>
  C10. With any format other than \<^verbatim>\<open>ConfigHCL\<close>, both strategies decode the config
  by \<^verbatim>\<open>yaml.Marshal\<close> and \<^verbatim>\<open>yaml.Unmarshal\<close> of \<^verbatim>\<open>ConfigAttrsYAML\<close>: the run
  starts with these two calls, never calls \<^verbatim>\<open>gohcl.DecodeBody\<close>, and is the same for
  every such format and every \<^verbatim>\<open>ConfigAttrsHCL\<close>.
\<close>

theorem non_hcl_format_decodes_as_yaml:
  assumes "format c \<noteq> ConfigHCL env" and "g \<noteq> ConfigHCL env"
  shows "decodeS3Config env c
           = (case yaml_unmarshal_s3 env (yaml_marshal env (ConfigAttrsYAML c)) of
                Inl m \<Rightarrow> Err (CannotParseConfig S3 (Some m))
              | Inr b \<Rightarrow> Ok b,
              [YamlMarshal, YamlUnmarshal])
       \<and> decodeLocalConfig env c
           = (case yaml_unmarshal_local env (yaml_marshal env (ConfigAttrsYAML c)) of
                Inl m \<Rightarrow> Err (CannotParseConfig LOCAL (Some m))
              | Inr b \<Rightarrow> Ok b,
              [YamlMarshal, YamlUnmarshal])
       \<and> NewS3TerraformBackend env (c\<lparr>format := g, ConfigAttrsHCL := h\<rparr>) = NewS3TerraformBackend env c
       \<and> NewLocalTerraformBackend env (c\<lparr>format := g, ConfigAttrsHCL := h\<rparr>)
           = NewLocalTerraformBackend env c
       \<and> take 2 (snd (NewS3TerraformBackend env c)) = [YamlMarshal, YamlUnmarshal]
       \<and> take 2 (snd (NewLocalTerraformBackend env c)) = [YamlMarshal, YamlUnmarshal]
       \<and> HclDecodeBody \<notin> set (snd (NewS3TerraformBackend env c))
       \<and> HclDecodeBody \<notin> set (snd (NewLocalTerraformBackend env c))"
proof -
  have dS: "decodeS3Config env c
           = (case yaml_unmarshal_s3 env (yaml_marshal env (ConfigAttrsYAML c)) of
                Inl m \<Rightarrow> Err (CannotParseConfig S3 (Some m))
              | Inr b \<Rightarrow> Ok b,
              [YamlMarshal, YamlUnmarshal])"
    using assms(1) by (simp add: decodeS3Config_def split: sum.splits)
  have dL: "decodeLocalConfig env c
           = (case yaml_unmarshal_local env (yaml_marshal env (ConfigAttrsYAML c)) of
                Inl m \<Rightarrow> Err (CannotParseConfig LOCAL (Some m))
              | Inr b \<Rightarrow> Ok b,
              [YamlMarshal, YamlUnmarshal])"
    using assms(1) by (simp add: decodeLocalConfig_def split: sum.splits)
  have eS: "decodeS3Config env (c\<lparr>format := g, ConfigAttrsHCL := h\<rparr>) = decodeS3Config env c"
    using assms by (simp add: decodeS3Config_def)
  have eL: "decodeLocalConfig env (c\<lparr>format := g, ConfigAttrsHCL := h\<rparr>) = decodeLocalConfig env c"
    using assms by (simp add: decodeLocalConfig_def)
  have fS: "fetchState env (c\<lparr>format := g, ConfigAttrsHCL := h\<rparr>) b cr = fetchState env c b cr" for b cr
    by (simp add: fetchState_def split: sum.splits)
  have fL: "readLocalState env (c\<lparr>format := g, ConfigAttrsHCL := h\<rparr>) b = readLocalState env c b" for b
    by (simp add: readLocalState_def split: option.splits)
  have rS: "NewS3TerraformBackend env (c\<lparr>format := g, ConfigAttrsHCL := h\<rparr>) = NewS3TerraformBackend env c"
    by (simp add: NewS3TerraformBackend_def eS fS)
  have rL: "NewLocalTerraformBackend env (c\<lparr>format := g, ConfigAttrsHCL := h\<rparr>)
           = NewLocalTerraformBackend env c"
    by (simp add: NewLocalTerraformBackend_def eL fL)
  have tS: "take 2 (snd (NewS3TerraformBackend env c)) = [YamlMarshal, YamlUnmarshal]
      \<and> HclDecodeBody \<notin> set (snd (NewS3TerraformBackend env c))"
    by (auto simp: NewS3TerraformBackend_def dS bind_simps stage_defs
        split: sum.splits option.splits)
  have tL: "take 2 (snd (NewLocalTerraformBackend env c)) = [YamlMarshal, YamlUnmarshal]
      \<and> HclDecodeBody \<notin> set (snd (NewLocalTerraformBackend env c))"
    by (auto simp: NewLocalTerraformBackend_def dL bind_simps readLocalState_def
        split: sum.splits option.splits)
  from dS dL rS rL tS tL show ?thesis
    by simp
qed

theorem non_hcl_format_decodes_as_yaml_witness:
  "format (sample_block ''local'' IOther [(''path'', YString ''terraform.tfstate'')] 7) \<noteq> ConfigHCL sample_env
   \<and> (1::int) \<noteq> ConfigHCL sample_env
   \<and> decodeLocalConfig sample_env (sample_block ''local'' IOther [(''path'', YString ''terraform.tfstate'')] 7)
       = (Ok \<lparr>Path = ''terraform.tfstate''\<rparr>, [YamlMarshal, YamlUnmarshal])
   \<and> decodeS3Config sample_env (sample_block ''local'' IOther [(''path'', YString ''terraform.tfstate'')] 7)
       = (Ok \<lparr>Bucket = [], Key = [], Region = [], RoleArn = []\<rparr>, [YamlMarshal, YamlUnmarshal])
   \<and> NewLocalTerraformBackend sample_env
        (sample_block ''local'' IOther [(''path'', YString ''terraform.tfstate'')] 7)
       = NewLocalTerraformBackend sample_env
        (sample_block ''local'' INil [(''path'', YString ''terraform.tfstate'')] 1)
   \<and> NewS3TerraformBackend sample_env
        (sample_block ''local'' IOther [(''path'', YString ''terraform.tfstate'')] 7)
       = NewS3TerraformBackend sample_env
        (sample_block ''local'' INil [(''path'', YString ''terraform.tfstate'')] 1)"
proof -
  let ?c = "sample_block ''local'' IOther [(''path'', YString ''terraform.tfstate'')] 7"
  have f: "format ?c \<noteq> ConfigHCL sample_env" "(1::int) \<noteq> ConfigHCL sample_env"
    by (simp_all add: sample_defs)
  have u: "yaml_unmarshal_local sample_env (yaml_marshal sample_env (ConfigAttrsYAML ?c))
             = Inr \<lparr>Path = ''terraform.tfstate''\<rparr>
     \<and> yaml_unmarshal_s3 sample_env (yaml_marshal sample_env (ConfigAttrsYAML ?c))
             = Inr \<lparr>Bucket = [], Key = [], Region = [], RoleArn = []\<rparr>"
    by (simp add: sample_defs yaml_Unmarshal_Local_def yaml_Unmarshal_S3_def)
  have e: "?c\<lparr>format := 1, ConfigAttrsHCL := INil\<rparr>
             = sample_block ''local'' INil [(''path'', YString ''terraform.tfstate'')] 1"
    by (simp add: sample_block_def)
  show ?thesis
    using f u non_hcl_format_decodes_as_yaml [OF f, where h = INil]
    by (simp add: e)
qed

section \<open>Decoding failures\<close>

text \<open>
  C1 as stated fails on the YAML branch, which has no notion of a required key. A local
  backend in the YAML format whose attributes have no \<^verbatim>\<open>path\<close>: decoding
  succeeds with an empty path, \<^verbatim>\<open>os.Open("")\<close> is called, and the error is the one of
  the file that cannot be read, not a decoding error.
\<close>

theorem yaml_missing_path_counterexample:
  "map_of (ConfigAttrsYAML (sample_block ''local'' INil [] 1)) ''path'' = None
   \<and> format (sample_block ''local'' INil [] 1) \<noteq> ConfigHCL sample_env
   \<and> NewBackend sample_env (sample_block ''local'' INil [] 1)
       = (Err (FailedToReadTfstate []), [YamlMarshal, YamlUnmarshal, OsOpen []])
   \<and> io_access (OsOpen [])"
  by (simp add: sample_defs NewBackend_def NewLocalTerraformBackend_def decodeLocalConfig_def
      yaml_Unmarshal_Local_def readLocalState_def bind_simps)

lemma hcl_missing_required:
  "(k, True) \<in> set schema \<Longrightarrow> map_of (attributes body) k = None \<Longrightarrow> \<not> hcl_content_ok schema body"
  unfolding hcl_content_ok_def list_all_iff by force

text \<open>
  C1, amended. For both backend types and both formats, when the decoder of the format
  rejects the config, \<^verbatim>\<open>NewBackend\<close> fails with the cannot-parse error of that backend
  type and the run makes no call to the network or the filesystem. With the model of
  \<^verbatim>\<open>gohcl.DecodeBody\<close>, a body in the HCL format that lacks a required attribute fails
  so, after the one call to the decoder.
\<close>

theorem config_decode_failure_no_io:
  assumes "cfg_BackendType c = ''s3''"
      and "format c = ConfigHCL env \<and> ConfigAttrsHCL c = IBody body0 \<and> gohcl_decode_s3 env body0 = None
           \<or> format c \<noteq> ConfigHCL env
             \<and> yaml_unmarshal_s3 env (yaml_marshal env (ConfigAttrsYAML c)) = Inl m0"
      and "cfg_BackendType c' = ''local''"
      and "format c' = ConfigHCL env \<and> ConfigAttrsHCL c' = IBody body0' \<and> gohcl_decode_local env body0' = None
           \<or> format c' \<noteq> ConfigHCL env
             \<and> yaml_unmarshal_local env (yaml_marshal env (ConfigAttrsYAML c')) = Inl m0'"
      and "cfg_BackendType d = ''s3''" and "format d = hcl" and "ConfigAttrsHCL d = IBody body"
      and "(k, True) \<in> set S3_schema" and "map_of (attributes body) k = None"
      and "cfg_BackendType d' = ''local''" and "format d' = hcl" and "ConfigAttrsHCL d' = IBody body'"
      and "map_of (attributes body') ''path'' = None"
  shows "(\<exists>m. fst (NewBackend env c) = Err (CannotParseConfig S3 m))
       \<and> list_all (\<lambda>x. \<not> io_access x) (snd (NewBackend env c))
       \<and> (\<exists>m. fst (NewBackend env c') = Err (CannotParseConfig LOCAL m))
       \<and> list_all (\<lambda>x. \<not> io_access x) (snd (NewBackend env c'))
       \<and> NewBackend (lib_env hcl ver fm ro w) d = (Err (CannotParseConfig S3 None), [HclDecodeBody])
       \<and> NewBackend (lib_env hcl ver fm ro w) d' = (Err (CannotParseConfig LOCAL None), [HclDecodeBody])"
proof -
  from assms(1,2)
  have 1: "(\<exists>m. fst (NewBackend env c) = Err (CannotParseConfig S3 m))
       \<and> list_all (\<lambda>x. \<not> io_access x) (snd (NewBackend env c))"
    by (auto simp: NewBackend_def NewS3TerraformBackend_def decodeS3Config_def bind_simps)
  from assms(3,4)
  have 2: "(\<exists>m. fst (NewBackend env c') = Err (CannotParseConfig LOCAL m))
       \<and> list_all (\<lambda>x. \<not> io_access x) (snd (NewBackend env c'))"
    by (auto simp: NewBackend_def NewLocalTerraformBackend_def decodeLocalConfig_def bind_simps)
  from hcl_missing_required [OF assms(8,9)]
  have "gohcl_DecodeBody_S3 body = None"
    by (simp add: gohcl_DecodeBody_S3_def)
  with assms(5,6,7)
  have 3: "NewBackend (lib_env hcl ver fm ro w) d = (Err (CannotParseConfig S3 None), [HclDecodeBody])"
    by (simp add: NewBackend_def NewS3TerraformBackend_def decodeS3Config_def bind_simps lib_env_def)
  from hcl_missing_required [of "''path''" Local_schema body'] assms(13)
  have "gohcl_DecodeBody_Local body' = None"
    by (simp add: gohcl_DecodeBody_Local_def Local_schema_def)
  with assms(10,11,12)
  have 4: "NewBackend (lib_env hcl ver fm ro w) d' = (Err (CannotParseConfig LOCAL None), [HclDecodeBody])"
    by (simp add: NewBackend_def NewLocalTerraformBackend_def decodeLocalConfig_def bind_simps lib_env_def)
  from 1 2 3 4 show ?thesis
    by simp
qed

theorem config_decode_failure_no_io_witness:
  "cfg_BackendType (sample_block ''s3'' INil [(''bucket'', YSeq [])] 1) = ''s3''
   \<and> format (sample_block ''s3'' INil [(''bucket'', YSeq [])] 1) \<noteq> ConfigHCL sample_env
   \<and> yaml_unmarshal_s3 sample_env
        (yaml_marshal sample_env (ConfigAttrsYAML (sample_block ''s3'' INil [(''bucket'', YSeq [])] 1)))
       = Inl yaml_type_error
   \<and> cfg_BackendType (sample_block ''local'' (IBody \<lparr>attributes = [], blocks = [''extra'']\<rparr>) [] 0) = ''local''
   \<and> format (sample_block ''local'' (IBody \<lparr>attributes = [], blocks = [''extra'']\<rparr>) [] 0) = ConfigHCL sample_env
   \<and> gohcl_decode_local sample_env \<lparr>attributes = [], blocks = [''extra'']\<rparr> = None
   \<and> (''bucket'', True) \<in> set S3_schema
   \<and> map_of (attributes \<lparr>attributes = [(''key'', CtyString ''k''), (''region'', CtyString ''eu-west-1'')],
                          blocks = []\<rparr>) ''bucket'' = None
   \<and> map_of (attributes \<lparr>attributes = [], blocks = []\<rparr>) ''path'' = None
   \<and> NewBackend sample_env (sample_block ''s3'' INil [(''bucket'', YSeq [])] 1)
       = (Err (CannotParseConfig ''s3'' (Some yaml_type_error)), [YamlMarshal, YamlUnmarshal])
   \<and> NewBackend sample_env (sample_block ''local'' (IBody \<lparr>attributes = [], blocks = [''extra'']\<rparr>) [] 0)
       = (Err (CannotParseConfig ''local'' None), [HclDecodeBody])
   \<and> NewBackend sample_env
        (sample_block ''s3''
           (IBody \<lparr>attributes = [(''key'', CtyString ''k''), (''region'', CtyString ''eu-west-1'')],
                   blocks = []\<rparr>) [] 0)
       = (Err (CannotParseConfig ''s3'' None), [HclDecodeBody])
   \<and> NewBackend sample_env (sample_block ''local'' (IBody \<lparr>attributes = [], blocks = []\<rparr>) [] 0)
       = (Err (CannotParseConfig ''local'' None), [HclDecodeBody])"
proof -
  let ?c = "sample_block ''s3'' INil [(''bucket'', YSeq [])] 1"
  let ?c' = "sample_block ''local'' (IBody \<lparr>attributes = [], blocks = [''extra'']\<rparr>) [] 0"
  let ?bd = "\<lparr>attributes = [(''key'', CtyString ''k''), (''region'', CtyString ''eu-west-1'')],
              blocks = []\<rparr>"
  let ?d = "sample_block ''s3'' (IBody ?bd) [] 0"
  let ?d' = "sample_block ''local'' (IBody \<lparr>attributes = [], blocks = []\<rparr>) [] 0"
  have k: "cfg_BackendType ?c = ''s3''" "cfg_BackendType ?c' = ''local''"
    "cfg_BackendType ?d = ''s3''" "cfg_BackendType ?d' = ''local''"
    "format ?d = 0" "format ?d' = 0"
    "ConfigAttrsHCL ?d = IBody ?bd" "ConfigAttrsHCL ?d' = IBody \<lparr>attributes = [], blocks = []\<rparr>"
    by (simp_all add: sample_block_def)
  have y: "format ?c \<noteq> ConfigHCL sample_env
      \<and> yaml_unmarshal_s3 sample_env (yaml_marshal sample_env (ConfigAttrsYAML ?c)) = Inl yaml_type_error"
    by (simp add: sample_defs yaml_Unmarshal_S3_def)
  have h: "format ?c' = ConfigHCL sample_env
      \<and> ConfigAttrsHCL ?c' = IBody \<lparr>attributes = [], blocks = [''extra'']\<rparr>
      \<and> gohcl_decode_local sample_env \<lparr>attributes = [], blocks = [''extra'']\<rparr> = None"
    by (simp add: sample_defs gohcl_DecodeBody_Local_def hcl_content_ok_def)
  have s: "(''bucket'', True) \<in> set S3_schema"
    by (simp add: S3_schema_def)
  have m: "map_of (attributes ?bd) ''bucket'' = None"
    "map_of (attributes \<lparr>attributes = [], blocks = []\<rparr>) ''path'' = None"
    by simp_all
  have yc: "NewBackend sample_env ?c
       = (Err (CannotParseConfig ''s3'' (Some yaml_type_error)), [YamlMarshal, YamlUnmarshal])"
    using y k(1)
    by (simp add: NewBackend_def NewS3TerraformBackend_def decodeS3Config_def bind_simps S3_def)
  have hc: "NewBackend sample_env ?c' = (Err (CannotParseConfig ''local'' None), [HclDecodeBody])"
    using h k(2)
    by (simp add: NewBackend_def NewLocalTerraformBackend_def decodeLocalConfig_def bind_simps LOCAL_def)
  show ?thesis
    using k(1,2) y h s m yc hc
      config_decode_failure_no_io [OF k(1) disjI2 [OF y] k(2) disjI1 [OF h] k(3) k(5) k(7) s m(1)
          k(4) k(6) k(8) m(2), where ver = 4 and fm = "\<lambda>k. k = ''version''" and ro = "\<lambda>k j. True"
          and w = sample_world]
    by (simp add: sample_env_def S3_def LOCAL_def)
qed

section \<open>Undecodable state\<close>

text \<open>
  C2 as stated fails on a JSON value without a \<^verbatim>\<open>version\<close> member. The JSON texts \<^verbatim>\<open>{}\<close> and \<^verbatim>\<open>null\<close> hold no \<^verbatim>\<open>version\<close> field; they decode to the
  zero state, and \<^verbatim>\<open>parseAndValidate\<close> fails with the version error for version 0,
  not with \<^verbatim>\<open>invalid tf state file\<close>.
\<close>

theorem empty_object_counterexample:
  "parseAndValidate sample_env (JSON (JObject [])) = Err (UnsupportedStateVersion 0)
   \<and> parseAndValidate sample_env (JSON JNull) = Err (UnsupportedStateVersion 0)"
  by (simp add: parseAndValidate_def sample_defs)

lemma decode_members_bad_version:
  "fm ''version'' \<Longrightarrow> (''version'', v) \<in> set ms \<Longrightarrow> v \<noteq> JNull \<Longrightarrow> \<forall>n. v \<noteq> JInt n \<Longrightarrow>
     decode_members fm ro ms cur = None"
proof (induction ms arbitrary: cur)
  case Nil
  then show ?case by simp
next
  case (Cons a ms)
  obtain k j where a: "a = (k, j)" by (cases a)
  show ?case
  proof (cases "a = (''version'', v)")
    case True
    with Cons.prems a show ?thesis
      by (cases v) auto
  next
    case False
    with Cons.prems have "(''version'', v) \<in> set ms" by simp
    from Cons.IH [OF Cons.prems(1) this Cons.prems(3,4)] a show ?thesis
      by (simp split: option.splits)
  qed
qed

text \<open>
  C2, amended. \<^verbatim>\<open>parseAndValidate\<close> fails with \<^verbatim>\<open>invalid tf state file\<close>, and returns
  no document, whenever JSON decoding fails; with the model of \<^verbatim>\<open>encoding/json\<close> that
  is so for content that does not start with a JSON value, for a JSON value other than
  \<^verbatim>\<open>null\<close> and an object, and for an object with a \<^verbatim>\<open>version\<close> member that is
  neither an integer number nor \<^verbatim>\<open>null\<close>.
\<close>

theorem undecodable_state_rejected:
  assumes "fm ''version''"
  shows "parseAndValidate (lib_env hcl ver fm ro w) NotJSON = Err InvalidTfState
       \<and> (j \<noteq> JNull \<and> (\<forall>ms. j \<noteq> JObject ms) \<longrightarrow>
            parseAndValidate (lib_env hcl ver fm ro w) (JSON j) = Err InvalidTfState)
       \<and> ((''version'', v) \<in> set ms \<and> v \<noteq> JNull \<and> (\<forall>n. v \<noteq> JInt n) \<longrightarrow>
            parseAndValidate (lib_env hcl ver fm ro w) (JSON (JObject ms)) = Err InvalidTfState)
       \<and> (json_decode env r = None \<longrightarrow> parseAndValidate env r = Err InvalidTfState)
       \<and> error_message InvalidTfState = ''invalid tf state file''"
proof (intro conjI impI)
  show "parseAndValidate (lib_env hcl ver fm ro w) NotJSON = Err InvalidTfState"
    by (simp add: parseAndValidate_def lib_env_def)
next
  assume "j \<noteq> JNull \<and> (\<forall>ms. j \<noteq> JObject ms)"
  then have "json_decode_State fm ro (JSON j) = None"
    by (cases j) simp_all
  then show "parseAndValidate (lib_env hcl ver fm ro w) (JSON j) = Err InvalidTfState"
    by (simp add: parseAndValidate_def lib_env_def)
next
  assume "(''version'', v) \<in> set ms \<and> v \<noteq> JNull \<and> (\<forall>n. v \<noteq> JInt n)"
  with assms have "decode_members fm ro ms 0 = None"
    by (blast intro: decode_members_bad_version)
  then show "parseAndValidate (lib_env hcl ver fm ro w) (JSON (JObject ms)) = Err InvalidTfState"
    by (simp add: parseAndValidate_def lib_env_def)
next
  assume "json_decode env r = None"
  then show "parseAndValidate env r = Err InvalidTfState"
    by (rule parseAndValidate_decode_error)
next
  show "error_message InvalidTfState = ''invalid tf state file''"
    by simp
qed

theorem undecodable_state_rejected_witness:
  "parseAndValidate sample_env NotJSON = Err InvalidTfState
   \<and> JArray [JInt 4] \<noteq> JNull
   \<and> parseAndValidate sample_env (JSON (JArray [JInt 4])) = Err InvalidTfState
   \<and> (''version'', JString ''4'') \<in> set [(''serial'', JInt 7), (''version'', JString ''4'')]
   \<and> parseAndValidate sample_env (JSON (JObject [(''serial'', JInt 7), (''version'', JString ''4'')]))
       = Err InvalidTfState
   \<and> json_decode sample_env (JSON (JBool True)) = None
   \<and> parseAndValidate sample_env (JSON (JBool True)) = Err InvalidTfState"
proof -
  have d: "json_decode sample_env (JSON (JBool True)) = None"
    by (simp add: sample_defs)
  show ?thesis
    using d undecodable_state_rejected [where fm = "\<lambda>k. k = ''version''" and hcl = 0 and ver = 4
        and ro = "\<lambda>k j. True" and w = sample_world and j = "JArray [JInt 4]"
        and v = "JString ''4''" and ms = "[(''serial'', JInt 7), (''version'', JString ''4'')]"
        and env = sample_env and r = "JSON (JBool True)"]
    by (simp add: sample_env_def)
qed

section \<open>Round trip through YAML\<close>




end
